theory Spec2Isabelle
  imports Complex_Main "HOL-Library.Log_Nat"
begin

section \<open>JavaScript numbers\<close>

text \<open>
  A JavaScript \<^verbatim>\<open>number\<close> is an IEEE 754 binary64 value: \<open>NaN\<close>, one of the two
  infinities, or a finite value, kept here as the rational it denotes. The two zeros are
  one value \<open>Fin 0\<close>: the program never divides by a zero and never looks at a zero's
  sign (\<^verbatim>\<open>-0 === 0\<close>, \<^verbatim>\<open>-0 || 0\<close> is \<^verbatim>\<open>0\<close>), so a result \<open>Fin 0\<close>
  stands for either zero. Every arithmetic
  operation computes the exact result and rounds it to the nearest binary64 value, ties
  to even (\<open>rd\<close>): 53 significant bits, least exponent \<open>- 1074\<close>, overflow to an
  infinity from \<open>2 ^ 1024\<close> on.
\<close>

datatype jsnum = NaN | PInf | NInf | Fin rat

definition pow2 :: "int \<Rightarrow> rat" where
  "pow2 e = (if 0 \<le> e then 2 ^ nat e else 1 / 2 ^ nat (- e))"

text \<open>\<open>flog2 a\<close> is \<open>\<lfloor>log\<^sub>2 a\<rfloor>\<close> for a positive rational \<open>a\<close>.\<close>

definition flog2 :: "rat \<Rightarrow> int" where
  "flog2 a = (if 1 \<le> a then bitlen \<lfloor>a\<rfloor> - 1 else - bitlen (\<lceil>1 / a\<rceil> - 1))"

definition round_half_even :: "rat \<Rightarrow> int" where
  "round_half_even r =
     (if r - of_int \<lfloor>r\<rfloor> < 1 / 2 then \<lfloor>r\<rfloor>
      else if 1 / 2 < r - of_int \<lfloor>r\<rfloor> then \<lfloor>r\<rfloor> + 1
      else if even \<lfloor>r\<rfloor> then \<lfloor>r\<rfloor> else \<lfloor>r\<rfloor> + 1)"

text \<open>The exponent of the last place of the binary64 values around \<open>a > 0\<close>.\<close>

definition rd_exp :: "rat \<Rightarrow> int" where
  "rd_exp a = max (flog2 a - 52) (- 1074)"

definition rd_at :: "int \<Rightarrow> rat \<Rightarrow> rat" where
  "rd_at e a = of_int (round_half_even (a / pow2 e)) * pow2 e"

definition rd_abs :: "rat \<Rightarrow> rat" where
  "rd_abs a = rd_at (rd_exp a) a"

definition rd :: "rat \<Rightarrow> jsnum" where
  "rd x =
     (if x = 0 then Fin 0
      else if pow2 1024 \<le> rd_abs \<bar>x\<bar> then (if 0 < x then PInf else NInf)
      else Fin (if 0 < x then rd_abs \<bar>x\<bar> else - rd_abs \<bar>x\<bar>))"

fun js_mul :: "jsnum \<Rightarrow> jsnum \<Rightarrow> jsnum" where
  "js_mul NaN y = NaN"
| "js_mul x NaN = NaN"
| "js_mul (Fin a) (Fin b) = rd (a * b)"
| "js_mul (Fin a) PInf = (if a = 0 then NaN else if 0 < a then PInf else NInf)"
| "js_mul (Fin a) NInf = (if a = 0 then NaN else if 0 < a then NInf else PInf)"
| "js_mul PInf (Fin b) = (if b = 0 then NaN else if 0 < b then PInf else NInf)"
| "js_mul NInf (Fin b) = (if b = 0 then NaN else if 0 < b then NInf else PInf)"
| "js_mul PInf PInf = PInf"
| "js_mul PInf NInf = NInf"
| "js_mul NInf PInf = NInf"
| "js_mul NInf NInf = PInf"

fun js_add :: "jsnum \<Rightarrow> jsnum \<Rightarrow> jsnum" where
  "js_add NaN y = NaN"
| "js_add x NaN = NaN"
| "js_add (Fin a) (Fin b) = rd (a + b)"
| "js_add PInf NInf = NaN"
| "js_add NInf PInf = NaN"
| "js_add PInf y = PInf"
| "js_add NInf y = NInf"
| "js_add x PInf = PInf"
| "js_add x NInf = NInf"

fun js_neg :: "jsnum \<Rightarrow> jsnum" where
  "js_neg NaN = NaN"
| "js_neg PInf = NInf"
| "js_neg NInf = PInf"
| "js_neg (Fin a) = Fin (- a)"

definition js_sub :: "jsnum \<Rightarrow> jsnum \<Rightarrow> jsnum" where
  "js_sub x y = js_add x (js_neg y)"

text \<open>
  Division by a zero takes the zero as positive; the one division of the program is
  guarded by \<^verbatim>\<open>totalCost > 0\<close>.
\<close>

fun js_div :: "jsnum \<Rightarrow> jsnum \<Rightarrow> jsnum" where
  "js_div NaN y = NaN"
| "js_div x NaN = NaN"
| "js_div (Fin a) (Fin b) =
     (if b = 0 then (if a = 0 then NaN else if 0 < a then PInf else NInf) else rd (a / b))"
| "js_div (Fin a) y = Fin 0"
| "js_div PInf (Fin b) = (if 0 \<le> b then PInf else NInf)"
| "js_div NInf (Fin b) = (if 0 \<le> b then NInf else PInf)"
| "js_div x y = NaN"

text \<open>\<^verbatim>\<open>Math.floor\<close>: the floor of a binary64 value is a binary64 value.\<close>

fun js_floor :: "jsnum \<Rightarrow> jsnum" where
  "js_floor (Fin a) = Fin (of_int \<lfloor>a\<rfloor>)"
| "js_floor x = x"

text \<open>The comparison \<^verbatim>\<open>x < y\<close>; it is false as soon as one side is \<open>NaN\<close>.\<close>

fun js_lt :: "jsnum \<Rightarrow> jsnum \<Rightarrow> bool" where
  "js_lt NaN y = False"
| "js_lt x NaN = False"
| "js_lt (Fin a) (Fin b) = (a < b)"
| "js_lt x NInf = False"
| "js_lt PInf y = False"
| "js_lt NInf y = True"
| "js_lt x PInf = True"

definition js_gt :: "jsnum \<Rightarrow> jsnum \<Rightarrow> bool" where
  "js_gt x y = js_lt y x"

text \<open>The comparison \<^verbatim>\<open>x >= y\<close>.\<close>

definition js_ge :: "jsnum \<Rightarrow> jsnum \<Rightarrow> bool" where
  "js_ge x y = (x \<noteq> NaN \<and> y \<noteq> NaN \<and> \<not> js_lt x y)"

text \<open>\<^verbatim>\<open>Math.max\<close> of two numbers.\<close>

definition js_max :: "jsnum \<Rightarrow> jsnum \<Rightarrow> jsnum" where
  "js_max x y = (if x = NaN \<or> y = NaN then NaN else if js_lt x y then y else x)"

text \<open>
  \<^verbatim>\<open>Number(v)\<close> for a field of type \<^verbatim>\<open>number | undefined\<close>, and
  \<^verbatim>\<open>x || 0\<close> on a number: \<open>NaN\<close> and zero are falsy.
\<close>

definition Number :: "jsnum option \<Rightarrow> jsnum" where
  "Number v = (case v of None \<Rightarrow> NaN | Some x \<Rightarrow> x)"

definition or_zero :: "jsnum \<Rightarrow> jsnum" where
  "or_zero x = (if x = NaN \<or> x = Fin 0 then Fin 0 else x)"

section \<open>JavaScript strings\<close>

text \<open>
  A string is its sequence of UTF-16 code units. \<open>ascii\<close> writes an ASCII literal;
  the Chinese literals of the source are given by their code units.
\<close>

type_synonym jsstring = "nat list"

definition ascii :: "string \<Rightarrow> jsstring" where
  "ascii s = map of_char s"

text \<open>\<^verbatim>\<open>s.startsWith(p)\<close> and \<^verbatim>\<open>s.includes(sub)\<close>.\<close>

definition startsWith :: "jsstring \<Rightarrow> jsstring \<Rightarrow> bool" where
  "startsWith s p = (take (length p) s = p)"

primrec js_includes :: "jsstring \<Rightarrow> jsstring \<Rightarrow> bool" where
  "js_includes [] sub = (sub = [])"
| "js_includes (c # cs) sub = (startsWith (c # cs) sub \<or> js_includes cs sub)"

text \<open>
  White space and line terminators of ECMAScript, the characters that
  \<^verbatim>\<open>trim\<close> and \<^verbatim>\<open>parseFloat\<close> strip.
\<close>

definition is_ws :: "nat \<Rightarrow> bool" where
  "is_ws c =
     (c \<in> set [0x09, 0x0A, 0x0B, 0x0C, 0x0D, 0x20, 0xA0, 0x1680, 0x2028, 0x2029, 0x202F,
        0x205F, 0x3000, 0xFEFF]
      \<or> (0x2000 \<le> c \<and> c \<le> 0x200A))"

definition trim :: "jsstring \<Rightarrow> jsstring" where
  "trim s = rev (dropWhile is_ws (rev (dropWhile is_ws s)))"

subsection \<open>parseFloat\<close>

text \<open>
  \<^verbatim>\<open>parseFloat\<close> skips leading white space, reads the longest prefix that is a
  decimal literal (optional sign; \<^verbatim>\<open>Infinity\<close>, or digits with an optional
  fraction and an optional exponent) and returns the binary64 value nearest to it;
  \<open>NaN\<close> when there is no such prefix.
\<close>

definition is_digit :: "nat \<Rightarrow> bool" where
  "is_digit c = (48 \<le> c \<and> c \<le> 57)"

definition digits_val :: "jsstring \<Rightarrow> int" where
  "digits_val ds = foldl (\<lambda>v c. 10 * v + (int c - 48)) 0 ds"

definition pow10 :: "int \<Rightarrow> rat" where
  "pow10 e = (if 0 \<le> e then 10 ^ nat e else 1 / 10 ^ nat (- e))"

text \<open>The fraction digits after the integer part, and what follows them.\<close>

definition frac_part :: "jsstring \<Rightarrow> jsstring" where
  "frac_part r = (case r of [] \<Rightarrow> [] | c # r' \<Rightarrow> if c = 46 then takeWhile is_digit r' else [])"

definition after_frac :: "jsstring \<Rightarrow> jsstring" where
  "after_frac r = (case r of [] \<Rightarrow> [] | c # r' \<Rightarrow> if c = 46 then dropWhile is_digit r' else r)"

text \<open>
  The exponent: \<^verbatim>\<open>e\<close> or \<^verbatim>\<open>E\<close>, an optional sign, at least one digit; an
  exponent without digits is not part of the literal.
\<close>

definition exponent_part :: "jsstring \<Rightarrow> int" where
  "exponent_part r =
     (case r of
        [] \<Rightarrow> 0
      | c # r1 \<Rightarrow>
          if c = 101 \<or> c = 69 then
            (case r1 of
               [] \<Rightarrow> 0
             | d # r2 \<Rightarrow>
                 if d = 43 then digits_val (takeWhile is_digit r2)
                 else if d = 45 then - digits_val (takeWhile is_digit r2)
                 else digits_val (takeWhile is_digit r1))
          else 0)"

definition unsigned_literal :: "jsstring \<Rightarrow> jsnum" where
  "unsigned_literal r =
     (if startsWith r (ascii ''Infinity'') then PInf
      else if takeWhile is_digit r = [] \<and> frac_part (dropWhile is_digit r) = [] then NaN
      else rd (of_int (digits_val (takeWhile is_digit r @ frac_part (dropWhile is_digit r)))
             * pow10 (exponent_part (after_frac (dropWhile is_digit r))
                 - int (length (frac_part (dropWhile is_digit r))))))"

definition parseFloat :: "jsstring \<Rightarrow> jsnum" where
  "parseFloat s =
     (case dropWhile is_ws s of
        [] \<Rightarrow> NaN
      | c # r \<Rightarrow>
          if c = 45 then js_neg (unsigned_literal r)
          else if c = 43 then unsigned_literal r
          else unsigned_literal (c # r))"

section \<open>The stored fee discount\<close>

text \<open>
  \<^verbatim>\<open>localStorage\<close> is ambient state; \<^verbatim>\<open>getItem\<close> returns the stored string
  or \<^verbatim>\<open>null\<close>. \<^verbatim>\<open>getFeeDiscount\<close> reads it:
  \<^verbatim>\<open>return data ? parseFloat(data) : 0.28\<close> (the empty string is falsy).
\<close>

type_synonym storage = "jsstring \<Rightarrow> jsstring option"

definition FEE_DISCOUNT :: jsstring where
  "FEE_DISCOUNT = ascii ''ft_stock_fee_discount''"

definition getFeeDiscount :: "storage \<Rightarrow> jsnum" where
  "getFeeDiscount ls =
     (case ls FEE_DISCOUNT of
        None \<Rightarrow> rd (28 / 100)
      | Some d \<Rightarrow> if d = [] then rd (28 / 100) else parseFloat d)"

section \<open>calculateStockPerformance\<close>

text \<open>
  The fields of \<^verbatim>\<open>Asset\<close> and \<^verbatim>\<open>Transaction\<close> that the calculator reads; it
  reads no other field of the two interfaces, and they are left out. An optional
  field is an \<open>option\<close>, \<open>None\<close> being \<^verbatim>\<open>undefined\<close>; \<open>note'\<close> and \<open>type'\<close>
  are the fields \<^verbatim>\<open>note\<close> and \<^verbatim>\<open>type\<close>.
\<close>

record asset =
  symbol :: "jsstring option"
  shares :: "jsnum option"
  avgCost :: "jsnum option"
  currentPrice :: "jsnum option"
  isEtf :: "bool option"

datatype transaction_type = EXPENSE | INCOME | DIVIDEND

record transaction =
  amount :: jsnum
  item :: jsstring
  note' :: "jsstring option"
  type' :: transaction_type

record StockPerformanceResult =
  totalCost :: jsnum
  marketValue :: jsnum
  estimatedReturn :: jsnum
  netProfit :: jsnum
  roi :: jsnum
  buyFee :: jsnum
  sellFee :: jsnum
  tax :: jsnum
  totalDividends :: jsnum

definition feeRate :: jsnum where
  "feeRate = rd (1425 / 1000000)"

definition minFee :: jsnum where
  "minFee = Fin 20"

text \<open>
  The closure \<^verbatim>\<open>calculateFee\<close>, with the variables it captures as parameters:
  \<^verbatim>\<open>const fee = Math.floor(price * shares * feeRate * feeDiscount);
  return fee < minFee ? minFee : fee;\<close>
\<close>

definition calculateFee :: "jsnum \<Rightarrow> jsnum \<Rightarrow> jsnum \<Rightarrow> jsnum" where
  "calculateFee shares' feeDiscount price =
     (let fee = js_floor (js_mul (js_mul (js_mul price shares') feeRate) feeDiscount)
      in if js_lt fee minFee then minFee else fee)"

text \<open>
  The filter of the dividend sum:
  \<^verbatim>\<open>t.type === 'DIVIDEND' && (t.item.includes(sym) || t.note?.includes(sym))\<close>.
\<close>

definition isDividendOf :: "jsstring \<Rightarrow> transaction \<Rightarrow> bool" where
  "isDividendOf sy t =
     (type' t = DIVIDEND
      \<and> (js_includes (item t) sy \<or> (case note' t of None \<Rightarrow> False | Some n \<Rightarrow> js_includes n sy)))"

text \<open>\<^verbatim>\<open>.reduce((sum, t) => sum + t.amount, 0)\<close>.\<close>

definition sumAmounts :: "transaction list \<Rightarrow> jsnum" where
  "sumAmounts ts = foldl (\<lambda>sum t. js_add sum (amount t)) (Fin 0) ts"

definition dividendsOf :: "asset \<Rightarrow> transaction list \<Rightarrow> jsnum" where
  "dividendsOf stock transactions =
     (case symbol stock of
        None \<Rightarrow> Fin 0
      | Some sy \<Rightarrow>
          if sy \<noteq> [] \<and> 0 < length transactions
          then sumAmounts (filter (isDividendOf sy) transactions)
          else Fin 0)"

text \<open>
  \<^verbatim>\<open>typeof stock.isEtf === 'boolean' ? stock.isEtf
    : (stock.symbol?.startsWith('00') || false)\<close>
\<close>

definition isActuallyEtf :: "asset \<Rightarrow> bool" where
  "isActuallyEtf stock =
     (case isEtf stock of
        Some b \<Rightarrow> b
      | None \<Rightarrow> (case symbol stock of None \<Rightarrow> False | Some sy \<Rightarrow> startsWith sy (ascii ''00'')))"

definition taxRateOf :: "asset \<Rightarrow> jsnum" where
  "taxRateOf stock = (if isActuallyEtf stock then rd (1 / 1000) else rd (3 / 1000))"

text \<open>
  The function itself. It has two parameters, the position and the transactions (default
  \<^verbatim>\<open>[]\<close>); the fee discount comes from \<^verbatim>\<open>getFeeDiscount()\<close>, so the storage is
  an explicit argument of the model.
\<close>

definition calculateStockPerformance ::
  "storage \<Rightarrow> asset \<Rightarrow> transaction list \<Rightarrow> StockPerformanceResult" where
  "calculateStockPerformance ls stock transactions =
     (let shares' = or_zero (Number (shares stock));
          avgCost' = or_zero (Number (avgCost stock));
          currentPrice' = or_zero (Number (currentPrice stock));
          totalDividends' = dividendsOf stock transactions
      in if shares' = Fin 0 \<or> avgCost' = Fin 0 then
           \<lparr>totalCost = Fin 0, marketValue = Fin 0, estimatedReturn = Fin 0, netProfit = Fin 0,
            roi = Fin 0, buyFee = Fin 0, sellFee = Fin 0, tax = Fin 0,
            totalDividends = totalDividends'\<rparr>
         else
           let feeDiscount = getFeeDiscount ls;
               taxRate = taxRateOf stock;
               buyValue = js_mul avgCost' shares';
               buyFee' = calculateFee shares' feeDiscount avgCost';
               totalCost' = js_add buyValue buyFee';
               marketValue' = js_mul currentPrice' shares';
               sellFee' = calculateFee shares' feeDiscount currentPrice';
               tax' = js_floor (js_mul marketValue' taxRate);
               estimatedReturn' = js_sub (js_sub marketValue' sellFee') tax';
               netProfit' = js_sub estimatedReturn' totalCost';
               roi' = (if js_gt totalCost' (Fin 0)
                       then js_mul (js_div netProfit' totalCost') (Fin 100) else Fin 0)
           in \<lparr>totalCost = totalCost', marketValue = marketValue',
               estimatedReturn = estimatedReturn', netProfit = netProfit', roi = roi',
               buyFee = buyFee', sellFee = sellFee', tax = tax',
               totalDividends = totalDividends'\<rparr>)"

section \<open>parseStockTransactionCSV\<close>

subsection \<open>String operations of the parser\<close>

text \<open>\<^verbatim>\<open>s.split(sep)\<close> for a separator of one character.\<close>

fun split_on :: "nat \<Rightarrow> jsstring \<Rightarrow> jsstring list" where
  "split_on sep [] = [[]]"
| "split_on sep (c # cs) =
     (if c = sep then [] # split_on sep cs
      else (case split_on sep cs of [] \<Rightarrow> [[c]] | p # ps \<Rightarrow> (c # p) # ps))"

text \<open>
  \<^verbatim>\<open>line.split(/,(?=(?:(?:[^"]*"){2})*[^"]*$)/)\<close>: the look-ahead holds at a comma
  exactly when the rest of the line has an even number of double quotes, so the line is
  split at these commas.
\<close>

fun split_csv :: "jsstring \<Rightarrow> jsstring list" where
  "split_csv [] = [[]]"
| "split_csv (c # cs) =
     (if c = 44 \<and> even (count_list cs 34) then [] # split_csv cs
      else (case split_csv cs of [] \<Rightarrow> [[c]] | p # ps \<Rightarrow> (c # p) # ps))"

text \<open>\<^verbatim>\<open>names.join(sep)\<close>.\<close>

fun join :: "jsstring \<Rightarrow> jsstring list \<Rightarrow> jsstring" where
  "join sep [] = []"
| "join sep [x] = x"
| "join sep (x # y # ys) = x @ sep @ join sep (y # ys)"

text \<open>\<^verbatim>\<open>s.trim().replace(/"/g, '')\<close>.\<close>

definition clean_cell :: "jsstring \<Rightarrow> jsstring" where
  "clean_cell s = filter (\<lambda>c. c \<noteq> 34) (trim s)"

text \<open>\<^verbatim>\<open>parts[i]\<close>: \<^verbatim>\<open>undefined\<close> outside the array, also at index \<open>- 1\<close>.\<close>

definition cell :: "jsstring list \<Rightarrow> int \<Rightarrow> jsstring option" where
  "cell parts i = (if 0 \<le> i \<and> nat i < length parts then Some (parts ! nat i) else None)"

text \<open>
  \<^verbatim>\<open>dateStr.match(/^\d{4}\/?\d{2}\/?\d{2}/)\<close>: four digits, an optional slash, two
  digits, an optional slash, two digits, at the start of the string.
\<close>

definition take_digits :: "nat \<Rightarrow> jsstring \<Rightarrow> jsstring option" where
  "take_digits n s =
     (if n \<le> length s \<and> list_all is_digit (take n s) then Some (drop n s) else None)"

definition skip_slash :: "jsstring \<Rightarrow> jsstring" where
  "skip_slash s = (case s of [] \<Rightarrow> [] | c # r \<Rightarrow> if c = 47 then r else s)"

definition date_match :: "jsstring \<Rightarrow> bool" where
  "date_match s =
     (case take_digits 4 s of
        None \<Rightarrow> False
      | Some r1 \<Rightarrow>
          (case take_digits 2 (skip_slash r1) of
             None \<Rightarrow> False
           | Some r2 \<Rightarrow> take_digits 2 (skip_slash r2) \<noteq> None))"

text \<open>
  \<^verbatim>\<open>if (!str) return 0; const cleaned = str.replace(/"/g, '').replace(/,/g, '');
  const num = parseFloat(cleaned); return isNaN(num) ? 0 : num;\<close>
\<close>

definition cleanNumber :: "jsstring option \<Rightarrow> jsnum" where
  "cleanNumber str =
     (case str of
        None \<Rightarrow> Fin 0
      | Some s \<Rightarrow>
          if s = [] then Fin 0
          else if parseFloat (filter (\<lambda>c. c \<noteq> 44) (filter (\<lambda>c. c \<noteq> 34) s)) = NaN then Fin 0
          else parseFloat (filter (\<lambda>c. c \<noteq> 44) (filter (\<lambda>c. c \<noteq> 34) s)))"

subsection \<open>The string literals of the parser\<close>

text \<open>The header keywords, in UTF-16 code units.\<close>

definition kw_date :: jsstring where
  "kw_date = [0x6210, 0x4EA4, 0x65E5, 0x671F]"

definition kw_symbol :: jsstring where
  "kw_symbol = [0x80A1, 0x7968, 0x4EE3, 0x865F]"

definition kw_side :: jsstring where
  "kw_side = [0x8CB7, 0x8CE3, 0x5225]"

definition kw_side2 :: jsstring where
  "kw_side2 = [0x8CB7, 0x8CE3]"

definition kw_shares :: jsstring where
  "kw_shares = [0x6210, 0x4EA4, 0x6578, 0x91CF]"

definition kw_shares2 :: jsstring where
  "kw_shares2 = [0x80A1, 0x6578]"

definition kw_shares3 :: jsstring where
  "kw_shares3 = [0x6210, 0x4EA4, 0x80A1, 0x6578]"

definition kw_price :: jsstring where
  "kw_price = [0x6210, 0x4EA4, 0x50F9]"

definition kw_price2 :: jsstring where
  "kw_price2 = [0x6210, 0x4EA4, 0x55AE, 0x50F9]"

definition kw_price3 :: jsstring where
  "kw_price3 = [0x6210, 0x4EA4, 0x50F9, 0x683C]"

definition kw_amount :: jsstring where
  "kw_amount = [0x61C9, 0x6536, 0x4ED8, 0x5E33, 0x6B3E]"

definition kw_amount2 :: jsstring where
  "kw_amount2 = [0x6536, 0x4ED8, 0x91D1, 0x984D]"

definition kw_amount3 :: jsstring where
  "kw_amount3 = [0x767C, 0x751F, 0x91D1, 0x984D]"

definition kw_realizedProfit :: jsstring where
  "kw_realizedProfit = [0x640D, 0x76CA]"

definition kw_fee :: jsstring where
  "kw_fee = [0x624B, 0x7E8C, 0x8CBB]"

definition kw_tax :: jsstring where
  "kw_tax = [0x4EA4, 0x6613, 0x7A05]"

text \<open>The markers of subtotal and grand total lines, and the character for "buy".\<close>

definition subtotal_mark :: jsstring where
  "subtotal_mark = [0x5C0F, 0x8A08]"

definition total_mark :: jsstring where
  "total_mark = [0x7E3D, 0x8A08]"

definition buy_mark :: jsstring where
  "buy_mark = [0x8CB7]"

text \<open>
  The two error messages (the second one is followed by the missing names) and the
  separator of the names, U+3001.
\<close>

definition err_empty :: jsstring where
  "err_empty = [67, 83, 86, 32, 0x6A94, 0x6848, 0x662F, 0x7A7A, 0x7684, 0x6216, 0x7F3A, 0x5C11,
     0x6A19, 0x984C, 0x5217, 32, 40, 72, 101, 97, 100, 101, 114, 41, 0x3002]"

definition err_missing :: jsstring where
  "err_missing = [67, 83, 86, 32, 0x6A94, 0x6848, 0x7F3A, 0x5C11, 0x5FC5, 0x8981, 0x7684, 0x6B04,
     0x4F4D, 0xFF0C, 0x8ACB, 0x6AA2, 0x67E5, 0x662F, 0x5426, 0x5305, 0x542B, 0xFF1A]"

definition name_sep :: jsstring where
  "name_sep = [0x3001]"

subsection \<open>Header\<close>

text \<open>
  \<^verbatim>\<open>csvText.split('\n').map(line => line.trim()).filter(line => line)\<close> and
  \<^verbatim>\<open>lines[0].split(',').map(h => h.trim().replace(/"/g, ''))\<close>.
\<close>

definition csvLines :: "jsstring \<Rightarrow> jsstring list" where
  "csvLines csvText = filter (\<lambda>line. line \<noteq> []) (map trim (split_on 10 csvText))"

definition headersOf :: "jsstring \<Rightarrow> jsstring list" where
  "headersOf line = map clean_cell (split_on 44 line)"

text \<open>\<^verbatim>\<open>headers.findIndex(p)\<close>, with \<open>- 1\<close> when no element satisfies \<open>p\<close>.\<close>

fun findIndex :: "('a \<Rightarrow> bool) \<Rightarrow> 'a list \<Rightarrow> int" where
  "findIndex p [] = - 1"
| "findIndex p (x # xs) =
     (if p x then 0 else if findIndex p xs = - 1 then - 1 else findIndex p xs + 1)"

fun findColumnIndex :: "jsstring list \<Rightarrow> jsstring list \<Rightarrow> int" where
  "findColumnIndex headers [] = - 1"
| "findColumnIndex headers (keyword # keywords) =
     (if findIndex (\<lambda>header. js_includes header keyword) headers \<noteq> - 1
      then findIndex (\<lambda>header. js_includes header keyword) headers
      else findColumnIndex headers keywords)"

text \<open>The keys of \<^verbatim>\<open>columnMap\<close>, with the prefix \<open>col_\<close>.\<close>

record columnMap =
  col_date :: int
  col_symbol :: int
  col_side :: int
  col_shares :: int
  col_price :: int
  col_amount :: int
  col_realizedProfit :: int
  col_fee :: int
  col_tax :: int

definition columnMapOf :: "jsstring list \<Rightarrow> columnMap" where
  "columnMapOf headers =
     \<lparr>col_date = findColumnIndex headers [kw_date],
      col_symbol = findColumnIndex headers [kw_symbol],
      col_side = findColumnIndex headers [kw_side, kw_side2],
      col_shares = findColumnIndex headers [kw_shares, kw_shares2, kw_shares3],
      col_price = findColumnIndex headers [kw_price, kw_price2, kw_price3],
      col_amount = findColumnIndex headers [kw_amount, kw_amount2, kw_amount3],
      col_realizedProfit = findColumnIndex headers [kw_realizedProfit],
      col_fee = findColumnIndex headers [kw_fee],
      col_tax = findColumnIndex headers [kw_tax]\<rparr>"

text \<open>\<^verbatim>\<open>requiredFields\<close>: the key and the name of each required field.\<close>

definition requiredFields :: "((columnMap \<Rightarrow> int) \<times> jsstring) list" where
  "requiredFields =
     [(col_date, kw_date), (col_symbol, kw_symbol), (col_side, kw_side),
      (col_shares, kw_shares), (col_price, kw_price), (col_amount, kw_amount)]"

definition missingColumns :: "columnMap \<Rightarrow> ((columnMap \<Rightarrow> int) \<times> jsstring) list" where
  "missingColumns cm = filter (\<lambda>field. fst field cm = - 1) requiredFields"

subsection \<open>Rows\<close>

text \<open>
  \<^verbatim>\<open>StockTransaction\<close>. The fields whose name another record has already taken carry
  the prefix \<open>tx_\<close>. \<^verbatim>\<open>realizedProfit\<close> is an optional field of the interface.
\<close>

datatype side = BUY | SELL

record StockTransaction =
  tx_id :: jsstring
  tx_date :: jsstring
  tx_symbol :: jsstring
  tx_side :: side
  tradeType :: jsstring
  tx_shares :: jsnum
  tx_price :: jsnum
  fees :: jsnum
  realizedProfit :: "jsnum option"
  tx_amount :: jsnum

text \<open>
  One pass of the loop body on a line: the line is skipped by a \<^verbatim>\<open>continue\<close>, or
  the body throws (\<^verbatim>\<open>parts[columnMap.side]\<close> is \<^verbatim>\<open>undefined\<close> and
  \<^verbatim>\<open>.trim()\<close> is called on it), or a record is pushed. \<open>uid\<close> is the value that
  \<^verbatim>\<open>crypto.randomUUID()\<close> returns in this pass.
\<close>

datatype row_result = Skipped | Thrown | Pushed StockTransaction

definition parseRow :: "columnMap \<Rightarrow> jsstring \<Rightarrow> jsstring \<Rightarrow> row_result" where
  "parseRow cm uid line =
     (if js_includes line subtotal_mark \<or> js_includes line total_mark then Skipped
      else
        let parts = split_csv line;
            symbol' = map_option clean_cell (cell parts (col_symbol cm));
            dateStr = map_option clean_cell (cell parts (col_date cm))
        in case symbol' of
             None \<Rightarrow> Skipped
           | Some sy \<Rightarrow>
               (case dateStr of
                  None \<Rightarrow> Skipped
                | Some ds \<Rightarrow>
                    if sy = [] \<or> ds = [] \<or> \<not> date_match ds then Skipped
                    else
                      (case cell parts (col_side cm) of
                         None \<Rightarrow> Thrown
                       | Some sc \<Rightarrow>
                           let sideText = clean_cell sc;
                               side' = (if js_includes sideText buy_mark then BUY else SELL);
                               fees' = (if col_fee cm \<noteq> - 1
                                        then cleanNumber (cell parts (col_fee cm)) else Fin 0);
                               tax' = (if col_tax cm \<noteq> - 1
                                       then cleanNumber (cell parts (col_tax cm)) else Fin 0);
                               totalFees = js_add fees' tax';
                               realizedProfitValue =
                                 (if side' = SELL
                                  then (if col_realizedProfit cm \<noteq> - 1
                                        then cleanNumber (cell parts (col_realizedProfit cm))
                                        else Fin 0)
                                  else Fin 0)
                           in Pushed
                                \<lparr>tx_id = uid,
                                 tx_date = map (\<lambda>c. if c = 47 then 45 else c) ds,
                                 tx_symbol = sy,
                                 tx_side = side',
                                 tradeType = [],
                                 tx_shares = cleanNumber (cell parts (col_shares cm)),
                                 tx_price = cleanNumber (cell parts (col_price cm)),
                                 fees = totalFees,
                                 realizedProfit = Some realizedProfitValue,
                                 tx_amount = cleanNumber (cell parts (col_amount cm))\<rparr>)))"

text \<open>
  The loop \<^verbatim>\<open>for (let i = 1; i < lines.length; i++)\<close> over the remaining lines;
  \<open>uuid i\<close> is the identifier drawn in pass \<open>i\<close>. A skipped line and a caught
  exception leave the array as it is.
\<close>

fun parseRows ::
  "columnMap \<Rightarrow> (nat \<Rightarrow> jsstring) \<Rightarrow> nat \<Rightarrow> jsstring list \<Rightarrow> StockTransaction list
     \<Rightarrow> StockTransaction list" where
  "parseRows cm uuid i [] acc = acc"
| "parseRows cm uuid i (line # rest) acc =
     (case parseRow cm (uuid i) line of
        Skipped \<Rightarrow> parseRows cm uuid (Suc i) rest acc
      | Thrown \<Rightarrow> parseRows cm uuid (Suc i) rest acc
      | Pushed t \<Rightarrow> parseRows cm uuid (Suc i) rest (acc @ [t]))"

record parse_result =
  transactions :: "StockTransaction list"
  error :: "jsstring option"

definition parseStockTransactionCSV :: "(nat \<Rightarrow> jsstring) \<Rightarrow> jsstring \<Rightarrow> parse_result" where
  "parseStockTransactionCSV uuid csvText =
     (let lines = csvLines csvText
      in if length lines < 2 then \<lparr>transactions = [], error = Some err_empty\<rparr>
         else
           let headers = headersOf (hd lines);
               cm = columnMapOf headers
           in if 0 < length (missingColumns cm)
              then \<lparr>transactions = [],
                    error = Some (err_missing @ join name_sep (map snd (missingColumns cm)))\<rparr>
              else \<lparr>transactions = parseRows cm uuid 1 (tl lines) [], error = None\<rparr>)"

subsection \<open>Notions used to state the properties of the parser\<close>

text \<open>The column map that the parser computes from the first line of a text.\<close>

definition columnsOf :: "jsstring \<Rightarrow> columnMap" where
  "columnsOf csvText = columnMapOf (headersOf (hd (csvLines csvText)))"

text \<open>The record that a pass of the loop body pushes, if it pushes one.\<close>

definition pushed :: "row_result \<Rightarrow> StockTransaction option" where
  "pushed r = (case r of Pushed t \<Rightarrow> Some t | Skipped \<Rightarrow> None | Thrown \<Rightarrow> None)"

text \<open>
  The text of a cell as the parser reads it, trimmed and without double quotes; empty
  when the line has no cell at this index.
\<close>

definition cell_text :: "jsstring list \<Rightarrow> int \<Rightarrow> jsstring" where
  "cell_text parts i = (case cell parts i of None \<Rightarrow> [] | Some c \<Rightarrow> clean_cell c)"

text \<open>
  A header lacks a column for a field when no header cell contains any keyword variant
  of the field. \<open>required_keywords\<close> lists each required field by its name, with the
  keyword variants that \<^verbatim>\<open>columnMap\<close> searches for it.
\<close>

definition lacks_column :: "jsstring list \<Rightarrow> jsstring list \<Rightarrow> bool" where
  "lacks_column headers keywords =
     list_all (\<lambda>keyword. list_all (\<lambda>header. \<not> js_includes header keyword) headers) keywords"

definition required_keywords :: "(jsstring \<times> jsstring list) list" where
  "required_keywords =
     [(kw_date, [kw_date]), (kw_symbol, [kw_symbol]), (kw_side, [kw_side, kw_side2]),
      (kw_shares, [kw_shares, kw_shares2, kw_shares3]),
      (kw_price, [kw_price, kw_price2, kw_price3]),
      (kw_amount, [kw_amount, kw_amount2, kw_amount3])]"

subsection \<open>Sample inputs\<close>

text \<open>
  The header line and the data row of the round-trip example, in code units: the six
  required column names separated by commas, and
  \<^verbatim>\<open>2024/01/15,2330,\<close> U+8CB7 U+9032 \<^verbatim>\<open>,1000,600,-600020\<close>.
\<close>

definition sample_header :: jsstring where
  "sample_header = [0x6210, 0x4EA4, 0x65E5, 0x671F, 44, 0x80A1, 0x7968, 0x4EE3, 0x865F, 44,
     0x8CB7, 0x8CE3, 0x5225, 44, 0x6210, 0x4EA4, 0x6578, 0x91CF, 44, 0x6210, 0x4EA4, 0x50F9, 44,
     0x61C9, 0x6536, 0x4ED8, 0x5E33, 0x6B3E]"

definition sample_row :: jsstring where
  "sample_row = [50, 48, 50, 52, 47, 48, 49, 47, 49, 53, 44, 50, 51, 51, 48, 44, 0x8CB7, 0x9032,
     44, 49, 48, 48, 48, 44, 54, 48, 48, 44, 45, 54, 48, 48, 48, 50, 48]"

definition sample_csv :: jsstring where
  "sample_csv = sample_header @ [10] @ sample_row"

definition sample_cm :: columnMap where
  "sample_cm =
     \<lparr>col_date = 0, col_symbol = 1, col_side = 2, col_shares = 3, col_price = 4,
      col_amount = 5, col_realizedProfit = - 1, col_fee = - 1, col_tax = - 1\<rparr>"

definition sample_record :: "jsstring \<Rightarrow> StockTransaction" where
  "sample_record uid =
     \<lparr>tx_id = uid, tx_date = ascii ''2024-01-15'', tx_symbol = ascii ''2330'', tx_side = BUY,
      tradeType = [], tx_shares = Fin 1000, tx_price = Fin 600, fees = Fin 0,
      realizedProfit = Some (Fin 0), tx_amount = Fin (- 600020)\<rparr>"

text \<open>Identifiers for the sample runs.\<close>

definition sample_uuid :: "nat \<Rightarrow> jsstring" where
  "sample_uuid i = ascii ''uuid-'' @ [48 + i]"

text \<open>The sample header without its last column, the amount.\<close>

definition header_without_amount :: jsstring where
  "header_without_amount = take 22 sample_header"

text \<open>
  A text of five lines: the sample header, a subtotal line (U+5C0F U+8A08 in its first
  cell), a line of two cells only, a line whose date cell is not a date, and the sample
  row; some lines end with a carriage return.
\<close>

definition subtotal_line :: jsstring where
  "subtotal_line = subtotal_mark @ ascii '',2330,x,1000,600,-600020''"

definition short_line :: jsstring where
  "short_line = ascii ''2024/01/15,2330''"

definition undated_line :: jsstring where
  "undated_line = ascii ''n/a,2330,x,1000,600,-600020''"

definition mixed_csv :: jsstring where
  "mixed_csv =
     sample_header @ [10] @ subtotal_line @ [13, 10] @ short_line @ [13, 10]
     @ undated_line @ [13, 10] @ sample_row @ [10]"

text \<open>The sample row under the header without the amount column.\<close>

definition csv_without_amount :: jsstring where
  "csv_without_amount = header_without_amount @ [10] @ sample_row"

text \<open>
  A text with a seventh column U+640D U+76CA for the realized profit and one row of a
  sale (U+8CE3 U+51FA), with quoted numbers that contain commas:
  \<^verbatim>\<open>2024/02/01,2330,\<close> U+8CE3 U+51FA \<^verbatim>\<open>,"1,000",650,649000,"47,552"\<close>.
\<close>

definition sell_header :: jsstring where
  "sell_header = sample_header @ [44, 0x640D, 0x76CA]"

definition sell_row :: jsstring where
  "sell_row =
     ascii ''2024/02/01,2330,'' @ [0x8CE3, 0x51FA]
     @ ascii '','' @ [34] @ ascii ''1,000'' @ [34] @ ascii '',650,649000,''
     @ [34] @ ascii ''47,552'' @ [34]"

definition sell_csv :: jsstring where
  "sell_csv = sell_header @ [10] @ sell_row"

definition sell_cm :: columnMap where
  "sell_cm = sample_cm\<lparr>col_realizedProfit := 6\<rparr>"

definition sell_record :: "jsstring \<Rightarrow> StockTransaction" where
  "sell_record uid =
     \<lparr>tx_id = uid, tx_date = ascii ''2024-02-01'', tx_symbol = ascii ''2330'', tx_side = SELL,
      tradeType = [], tx_shares = Fin 1000, tx_price = Fin 650, fees = Fin 0,
      realizedProfit = Some (Fin 47552), tx_amount = Fin 649000\<rparr>"

text \<open>A position of 1000 shares bought at 600 and quoted at 650, not an ETF.\<close>

definition sample_stock :: asset where
  "sample_stock =
     \<lparr>symbol = Some (ascii ''2330''), shares = Some (Fin 1000), avgCost = Some (Fin 600),
      currentPrice = Some (Fin 650), isEtf = Some False\<rparr>"

text \<open>
  A position with an empty symbol and no shares, a position with a symbol and zero
  shares, and a dividend transaction whose item names the symbol 2330.
\<close>

definition empty_symbol_stock :: asset where
  "empty_symbol_stock =
     \<lparr>symbol = Some [], shares = None, avgCost = None, currentPrice = None, isEtf = None\<rparr>"

definition unheld_stock :: asset where
  "unheld_stock =
     \<lparr>symbol = Some (ascii ''2330''), shares = Some (Fin 0), avgCost = Some (Fin 600),
      currentPrice = Some (Fin 650), isEtf = None\<rparr>"

definition dividend_tx :: transaction where
  "dividend_tx =
     \<lparr>amount = Fin 500, item = ascii ''2330 dividend'', note' = None, type' = DIVIDEND\<rparr>"

text \<open>A position whose symbol starts with 00 and whose \<^verbatim>\<open>isEtf\<close> flag is not set.\<close>

definition etf_stock :: asset where
  "etf_stock =
     \<lparr>symbol = Some (ascii ''0050''), shares = Some (Fin 1000), avgCost = Some (Fin 100),
      currentPrice = Some (Fin 150), isEtf = None\<rparr>"

text \<open>
  A storage whose fee discount entry is the string \<^verbatim>\<open>abc\<close>, and one whose entry is
  \<^verbatim>\<open>0.5\<close>.
\<close>

definition unparsable_storage :: storage where
  "unparsable_storage = Map.empty(FEE_DISCOUNT \<mapsto> ascii ''abc'')"

definition half_discount_storage :: storage where
  "half_discount_storage = Map.empty(FEE_DISCOUNT \<mapsto> ascii ''0.5'')"

section \<open>Evaluation of the number model\<close>

lemma floor_rat_numeral_div [simp]:
  "\<lfloor>numeral a / numeral b :: rat\<rfloor> = numeral a div numeral b"
  by (metis floor_divide_of_int_eq of_int_numeral)

lemma floor_rat_neg_numeral_div [simp]:
  "\<lfloor>- (numeral a / numeral b) :: rat\<rfloor> = - numeral a div numeral b"
  by (metis divide_minus_left floor_divide_of_int_eq of_int_neg_numeral of_int_numeral)

lemma floor_rat_one_div [simp]:
  "\<lfloor>1 / numeral b :: rat\<rfloor> = 1 div numeral b"
  by (metis floor_divide_of_int_eq of_int_1 of_int_numeral)

lemma ceiling_rat_numeral_div [simp]:
  "\<lceil>numeral a / numeral b :: rat\<rceil> = - (- numeral a div numeral b)"
  unfolding ceiling_def
  by (metis divide_minus_left floor_divide_of_int_eq of_int_neg_numeral of_int_numeral)

lemmas rd_eval =
  rd_def rd_abs_def rd_at_def rd_exp_def flog2_def pow2_def round_half_even_def compute_bitlen

text \<open>
  Some binary64 values: the number nearest to one tenth, ties that go to the even
  neighbour above \<open>2 ^ 53\<close>, and values that need no rounding.
\<close>

lemma rd_tenth: "rd (1 / 10) = Fin (3602879701896397 / 36028797018963968)"
  by (simp add: rd_eval)

lemma rd_ties_to_even:
  "rd (9007199254740993) = Fin 9007199254740992"
  "rd (9007199254740995) = Fin 9007199254740996"
  "rd (- 9007199254740993) = Fin (- 9007199254740992)"
  by (simp_all add: rd_eval)

lemma rd_exact: "rd 600020 = Fin 600020" "rd (3 / 4) = Fin (3 / 4)"
  by (simp_all add: rd_eval)

lemmas parse_eval =
  parseFloat_def unsigned_literal_def ascii_def startsWith_def is_ws_def is_digit_def
  digits_val_def frac_part_def after_frac_def exponent_part_def pow10_def

lemma feeRate_val: "feeRate = Fin (1642913144064757 / 1152921504606846976)"
  by (simp add: feeRate_def rd_eval)

lemma default_discount_val: "rd (28 / 100) = Fin (1261007895663739 / 4503599627370496)"
  by (simp add: rd_eval)

lemma parse_028: "parseFloat (ascii ''0.28'') = Fin (1261007895663739 / 4503599627370496)"
  by (simp add: parse_eval rd_eval)

lemma fee_600:
  "calculateFee (Fin 1000) (Fin (1261007895663739 / 4503599627370496)) (Fin 600) = Fin 239"
  by (simp add: calculateFee_def feeRate_val minFee_def rd_eval)

lemma fee_650:
  "calculateFee (Fin 1000) (Fin (1261007895663739 / 4503599627370496)) (Fin 650) = Fin 259"
  by (simp add: calculateFee_def feeRate_val minFee_def rd_eval)

lemma tax_650000:
  "js_floor (js_mul (js_mul (Fin 650) (Fin 1000)) (rd (3 / 1000))) = Fin 1950"
  by (simp add: rd_eval)

lemma roi_val:
  "js_mul (js_div (Fin 47552) (Fin 600239)) (Fin 100)
     = Fin (4459789548011747 / 562949953421312)"
  by (simp add: rd_eval)

lemma example_with_discount:
  assumes "getFeeDiscount ls = Fin (1261007895663739 / 4503599627370496)"
  shows "calculateStockPerformance ls
       (stock\<lparr>shares := Some (Fin 1000), avgCost := Some (Fin 600),
          currentPrice := Some (Fin 650), isEtf := Some False\<rparr>) [] =
     \<lparr>totalCost = Fin 600239, marketValue = Fin 650000, estimatedReturn = Fin 647791,
      netProfit = Fin 47552, roi = Fin (4459789548011747 / 562949953421312),
      buyFee = Fin 239, sellFee = Fin 259, tax = Fin 1950, totalDividends = Fin 0\<rparr>"
  using assms
  by (simp add: calculateStockPerformance_def Let_def Number_def or_zero_def dividendsOf_def
      taxRateOf_def isActuallyEtf_def fee_600 fee_650 tax_650000 js_sub_def js_gt_def
      roi_val rd_eval split: option.splits)

section \<open>Lemmas about the calculator\<close>

lemma sumAmounts_foldl: "sumAmounts ts = foldl js_add (Fin 0) (map amount ts)"
  by (simp add: sumAmounts_def foldl_map)

lemma isDividendOf_iff:
  "isDividendOf sy t \<longleftrightarrow>
     type' t = DIVIDEND \<and> (js_includes (item t) sy \<or> (\<exists>n. note' t = Some n \<and> js_includes n sy))"
  by (auto simp: isDividendOf_def split: option.splits)

lemma performance_nonzero:
  assumes "or_zero (Number (shares stock)) \<noteq> Fin 0" and "or_zero (Number (avgCost stock)) \<noteq> Fin 0"
  shows "buyFee (calculateStockPerformance ls stock txs) =
           calculateFee (or_zero (Number (shares stock))) (getFeeDiscount ls)
             (or_zero (Number (avgCost stock)))"
    and "sellFee (calculateStockPerformance ls stock txs) =
           calculateFee (or_zero (Number (shares stock))) (getFeeDiscount ls)
             (or_zero (Number (currentPrice stock)))"
    and "marketValue (calculateStockPerformance ls stock txs) =
           js_mul (or_zero (Number (currentPrice stock))) (or_zero (Number (shares stock)))"
    and "tax (calculateStockPerformance ls stock txs) =
           js_floor (js_mul (marketValue (calculateStockPerformance ls stock txs)) (taxRateOf stock))"
  using assms by (simp_all add: calculateStockPerformance_def Let_def)

lemma js_gt_zero_nonzero: "js_gt x (Fin 0) \<Longrightarrow> x \<noteq> Fin 0"
  by (auto simp: js_gt_def)

lemma calculateFee_max:
  "calculateFee s d p = js_max (js_floor (js_mul (js_mul (js_mul p s) feeRate) d)) minFee"
  by (auto simp: calculateFee_def js_max_def Let_def minFee_def)

lemma calculateFee_ge_min: "calculateFee s d p \<noteq> NaN \<Longrightarrow> js_ge (calculateFee s d p) minFee"
  by (auto simp: calculateFee_def js_ge_def Let_def minFee_def)

lemma sample_stock_coerced:
  "or_zero (Number (shares sample_stock)) = Fin 1000"
  "or_zero (Number (avgCost sample_stock)) = Fin 600"
  "or_zero (Number (currentPrice sample_stock)) = Fin 650"
  by (simp_all add: sample_stock_def Number_def or_zero_def)

lemma unparsable_discount: "getFeeDiscount unparsable_storage = NaN"
  by (simp add: getFeeDiscount_def unparsable_storage_def parse_eval)

lemma half_discount: "getFeeDiscount half_discount_storage = Fin (1 / 2)"
  by (simp add: getFeeDiscount_def half_discount_storage_def parse_eval rd_eval)

lemma js_mul_NaN_right: "js_mul x NaN = NaN"
  by (cases x) simp_all

lemma calculateFee_NaN: "calculateFee s NaN p = NaN"
  by (simp add: calculateFee_def js_mul_NaN_right)

lemma fee_600_half: "calculateFee (Fin 1000) (Fin (1 / 2)) (Fin 600) = Fin 427"
  by (simp add: calculateFee_def feeRate_val minFee_def rd_eval)

lemma fee_650_half: "calculateFee (Fin 1000) (Fin (1 / 2)) (Fin 650) = Fin 463"
  by (simp add: calculateFee_def feeRate_val minFee_def rd_eval)

section \<open>Lemmas about strings and the header search\<close>

lemma startsWith_iff: "startsWith s p \<longleftrightarrow> (\<exists>post. s = p @ post)"
proof
  assume "startsWith s p"
  then have "s = p @ drop (length p) s"
    unfolding startsWith_def by (metis append_take_drop_id)
  then show "\<exists>post. s = p @ post" ..
next
  assume "\<exists>post. s = p @ post"
  then show "startsWith s p"
    unfolding startsWith_def by auto
qed

lemma js_includes_iff: "js_includes s sub \<longleftrightarrow> (\<exists>pre post. s = pre @ sub @ post)"
proof (induction s)
  case Nil
  show ?case by auto
next
  case (Cons c cs)
  show ?case
  proof
    assume "js_includes (c # cs) sub"
    then consider "startsWith (c # cs) sub" | "js_includes cs sub"
      by auto
    then show "\<exists>pre post. c # cs = pre @ sub @ post"
    proof cases
      case 1
      then obtain post where "c # cs = sub @ post"
        unfolding startsWith_iff ..
      then have "c # cs = [] @ sub @ post" by simp
      then show ?thesis by blast
    next
      case 2
      with Cons.IH obtain pre post where "cs = pre @ sub @ post" by blast
      then have "c # cs = (c # pre) @ sub @ post" by simp
      then show ?thesis by blast
    qed
  next
    assume "\<exists>pre post. c # cs = pre @ sub @ post"
    then obtain pre post where eq: "c # cs = pre @ sub @ post" by blast
    show "js_includes (c # cs) sub"
    proof (cases pre)
      case Nil
      with eq have "startsWith (c # cs) sub"
        unfolding startsWith_iff by auto
      then show ?thesis by simp
    next
      case (Cons d pre')
      with eq have "cs = pre' @ sub @ post" by simp
      with Cons.IH have "js_includes cs sub" by blast
      then show ?thesis by simp
    qed
  qed
qed

lemma js_includes_append_right: "js_includes b sub \<Longrightarrow> js_includes (a @ b) sub"
  unfolding js_includes_iff by (metis append.assoc)

lemma js_includes_append_left: "js_includes a sub \<Longrightarrow> js_includes (a @ b) sub"
  unfolding js_includes_iff by (metis append.assoc)

lemma js_includes_self: "js_includes s s"
  unfolding js_includes_iff by (metis append_Nil append_Nil2)

lemma js_includes_join: "n \<in> set ns \<Longrightarrow> js_includes (join sep ns) n"
proof (induction sep ns rule: join.induct)
  case (1 sep)
  then show ?case by simp
next
  case (2 sep x)
  then show ?case by (simp add: js_includes_self)
next
  case (3 sep x y ys)
  show ?case
  proof (cases "n = x")
    case True
    then show ?thesis
      by (simp add: js_includes_append_left js_includes_self)
  next
    case False
    with 3 have "js_includes (join sep (y # ys)) n" by simp
    then show ?thesis
      by (simp add: js_includes_append_right)
  qed
qed

lemma findIndex_none: "findIndex p xs = - 1 \<longleftrightarrow> (\<forall>x\<in>set xs. \<not> p x)"
proof (induction xs)
  case Nil
  show ?case by simp
next
  case (Cons x xs)
  have "findIndex p xs \<noteq> - 1 \<Longrightarrow> findIndex p xs + 1 \<noteq> - 1 \<and> - 1 \<le> findIndex p xs" for xs
    by (induction xs) auto
  with Cons show ?case by auto
qed

lemma findColumnIndex_none:
  "findColumnIndex headers kws = - 1 \<longleftrightarrow> lacks_column headers kws"
  by (induction kws) (auto simp: lacks_column_def findIndex_none list_all_iff)

section \<open>Lemmas about the parser\<close>

lemma parseRows_append:
  "parseRows cm uuid i ls acc =
     acc @ List.map_filter (\<lambda>(j, l). pushed (parseRow cm (uuid j) l)) (List.enumerate i ls)"
proof (induction ls arbitrary: i acc)
  case Nil
  show ?case by simp
next
  case (Cons l ls)
  show ?case
    by (cases "parseRow cm (uuid i) l") (simp_all add: Cons pushed_def)
qed

lemma parse_cases:
  "parseStockTransactionCSV uuid text =
     (if length (csvLines text) < 2 then \<lparr>transactions = [], error = Some err_empty\<rparr>
      else if missingColumns (columnsOf text) \<noteq> []
      then \<lparr>transactions = [],
            error = Some (err_missing @ join name_sep (map snd (missingColumns (columnsOf text))))\<rparr>
      else \<lparr>transactions = parseRows (columnsOf text) uuid 1 (tl (csvLines text)) [],
            error = None\<rparr>)"
  by (simp add: parseStockTransactionCSV_def columnsOf_def Let_def)

lemma parse_transactions:
  "transactions (parseStockTransactionCSV uuid text) =
     (if error (parseStockTransactionCSV uuid text) = None
      then parseRows (columnsOf text) uuid 1 (tl (csvLines text)) [] else [])"
  by (simp add: parse_cases)

lemma transactions_rows:
  assumes "t \<in> set (transactions (parseStockTransactionCSV uuid text))"
  shows "\<exists>(i, line)\<in>set (List.enumerate 1 (tl (csvLines text))).
           parseRow (columnsOf text) (uuid i) line = Pushed t"
proof -
  from assms have "t \<in> set (parseRows (columnsOf text) uuid 1 (tl (csvLines text)) [])"
    by (simp add: parse_transactions split: if_splits)
  then obtain j l where "(j, l) \<in> set (List.enumerate 1 (tl (csvLines text)))"
    and "pushed (parseRow (columnsOf text) (uuid j) l) = Some t"
    by (auto simp: parseRows_append List.map_filter_def)
  then show ?thesis
    by (auto simp: pushed_def split: row_result.splits)
qed

lemma parseRow_Pushed:
  assumes "parseRow cm uid line = Pushed t"
  shows "tx_date t = map (\<lambda>c. if c = 47 then 45 else c) (cell_text (split_csv line) (col_date cm))"
    and "tx_symbol t = cell_text (split_csv line) (col_symbol cm)"
    and "tx_side t =
           (if js_includes (cell_text (split_csv line) (col_side cm)) buy_mark then BUY else SELL)"
    and "realizedProfit t =
           Some (if tx_side t = SELL \<and> col_realizedProfit cm \<noteq> - 1
                 then cleanNumber (cell (split_csv line) (col_realizedProfit cm)) else Fin 0)"
    and "tx_id t = uid"
  using assms
  by (auto simp: parseRow_def Let_def cell_text_def split: if_splits option.splits)

lemma parseRow_marked:
  "js_includes line subtotal_mark \<or> js_includes line total_mark \<Longrightarrow>
     parseRow cm uid line = Skipped"
  by (auto simp: parseRow_def)

lemma parseRow_unreadable:
  assumes "cell_text (split_csv line) (col_symbol cm) = []
      \<or> cell_text (split_csv line) (col_date cm) = []
      \<or> \<not> date_match (cell_text (split_csv line) (col_date cm))"
  shows "parseRow cm uid line = Skipped"
  using assms
  by (auto simp: parseRow_def Let_def cell_text_def split: option.splits)

lemma filter_names_rel:
  assumes "list_all2 (\<lambda>f k. snd f = fst k \<and> (P f \<longleftrightarrow> Q k)) fs ks"
  shows "map snd (filter P fs) = map fst (filter Q ks)"
  using assms by (induction rule: list_all2_induct) auto

lemma column_missing_iff:
  "col_date (columnMapOf hs) = - 1 \<longleftrightarrow> lacks_column hs [kw_date]"
  "col_symbol (columnMapOf hs) = - 1 \<longleftrightarrow> lacks_column hs [kw_symbol]"
  "col_side (columnMapOf hs) = - 1 \<longleftrightarrow> lacks_column hs [kw_side, kw_side2]"
  "col_shares (columnMapOf hs) = - 1 \<longleftrightarrow> lacks_column hs [kw_shares, kw_shares2, kw_shares3]"
  "col_price (columnMapOf hs) = - 1 \<longleftrightarrow> lacks_column hs [kw_price, kw_price2, kw_price3]"
  "col_amount (columnMapOf hs) = - 1 \<longleftrightarrow> lacks_column hs [kw_amount, kw_amount2, kw_amount3]"
  by (simp_all only: columnMapOf_def columnMap.select_convs findColumnIndex_none)

lemma missing_names:
  "map snd (missingColumns (columnMapOf hs)) =
     map fst (filter (\<lambda>field. lacks_column hs (snd field)) required_keywords)"
  unfolding missingColumns_def
  by (rule filter_names_rel)
    (simp add: requiredFields_def required_keywords_def column_missing_iff)

section \<open>Evaluation of the parser on the sample inputs\<close>

lemmas kw_defs = kw_date_def kw_symbol_def kw_side_def kw_side2_def kw_shares_def kw_shares2_def
  kw_shares3_def kw_price_def kw_price2_def kw_price3_def kw_amount_def kw_amount2_def
  kw_amount3_def kw_realizedProfit_def kw_fee_def kw_tax_def

lemmas line_eval = csvLines_def trim_def is_ws_def ascii_def

lemmas header_eval = columnsOf_def columnMapOf_def headersOf_def clean_cell_def trim_def
  is_ws_def kw_defs startsWith_def

lemmas row_eval = parseRow_def Let_def subtotal_mark_def total_mark_def buy_mark_def
  startsWith_def ascii_def cell_def clean_cell_def trim_def is_ws_def date_match_def
  take_digits_def skip_slash_def is_digit_def cleanNumber_def

lemma sample_lines: "csvLines sample_csv = [sample_header, sample_row]"
  by (simp add: sample_csv_def sample_header_def sample_row_def line_eval)

lemma sample_columns: "columnsOf sample_csv = sample_cm"
  unfolding columnsOf_def sample_lines
  by (simp add: sample_header_def sample_cm_def header_eval)

lemma sample_missing: "missingColumns sample_cm = []"
  by (simp add: missingColumns_def requiredFields_def sample_cm_def)

lemma sample_row_result: "parseRow sample_cm uid sample_row = Pushed (sample_record uid)"
  by (simp add: sample_row_def sample_cm_def sample_record_def row_eval parse_eval rd_eval)

lemma sample_parse:
  "parseStockTransactionCSV uuid sample_csv =
     \<lparr>transactions = [sample_record (uuid 1)], error = None\<rparr>"
  by (simp add: parse_cases sample_lines sample_columns sample_missing sample_row_result)

lemma mixed_lines:
  "csvLines mixed_csv = [sample_header, subtotal_line, short_line, undated_line, sample_row]"
  by (simp add: mixed_csv_def sample_header_def sample_row_def subtotal_line_def short_line_def
      undated_line_def subtotal_mark_def line_eval)

lemma mixed_columns: "columnsOf mixed_csv = sample_cm"
  unfolding columnsOf_def mixed_lines
  by (simp add: sample_header_def sample_cm_def header_eval)

lemma mixed_rows:
  "parseRow sample_cm uid subtotal_line = Skipped"
  "parseRow sample_cm uid short_line = Thrown"
  "parseRow sample_cm uid undated_line = Skipped"
  by (simp_all add: subtotal_line_def short_line_def undated_line_def sample_cm_def row_eval)

lemma mixed_parse:
  "parseStockTransactionCSV uuid mixed_csv =
     \<lparr>transactions = [sample_record (uuid 4)], error = None\<rparr>"
  by (simp add: parse_cases mixed_lines mixed_columns sample_missing mixed_rows sample_row_result
      eval_nat_numeral)


lemma sell_lines: "csvLines sell_csv = [sell_header, sell_row]"
  by (simp add: sell_csv_def sell_header_def sell_row_def sample_header_def line_eval)

lemma sell_columns: "columnsOf sell_csv = sell_cm"
  unfolding columnsOf_def sell_lines
  by (simp add: sell_header_def sample_header_def sell_cm_def sample_cm_def header_eval)

lemma sell_missing: "missingColumns sell_cm = []"
  by (simp add: missingColumns_def requiredFields_def sell_cm_def sample_cm_def)

lemma sell_row_result: "parseRow sell_cm uid sell_row = Pushed (sell_record uid)"
  by (simp add: sell_row_def sell_cm_def sample_cm_def sell_record_def row_eval parse_eval rd_eval)

lemma sell_parse:
  "parseStockTransactionCSV uuid sell_csv = \<lparr>transactions = [sell_record (uuid 1)], error = None\<rparr>"
  by (simp add: parse_cases sell_lines sell_columns sell_missing sell_row_result)

lemma without_amount_lines: "csvLines csv_without_amount = [header_without_amount, sample_row]"
  by (simp add: csv_without_amount_def header_without_amount_def sample_header_def sample_row_def
      line_eval)

lemma header_only_lines: "csvLines header_without_amount = [header_without_amount]"
  by (simp add: header_without_amount_def sample_header_def line_eval)

lemma without_amount_headers:
  "headersOf header_without_amount = [kw_date, kw_symbol, kw_side, kw_shares, kw_price]"
  by (simp add: header_without_amount_def sample_header_def headersOf_def clean_cell_def trim_def
      is_ws_def kw_defs)

lemma without_amount_lacks:
  "filter (\<lambda>field. lacks_column [kw_date, kw_symbol, kw_side, kw_shares, kw_price] (snd field))
     required_keywords = [(kw_amount, [kw_amount, kw_amount2, kw_amount3])]"
  by (simp add: required_keywords_def lacks_column_def kw_defs startsWith_def)

section \<open>The example calculation\<close>

text \<open>
  C3. For shares 1000, average cost 600, current price 650, \<open>isEtf = false\<close>, fee
  discount 0.28 (the storage holds nothing, or holds the string \<^verbatim>\<open>0.28\<close>) and no
  transactions, the result is buyFee 239, totalCost 600239, sellFee 259, tax 1950,
  estimatedReturn 647791, netProfit 47552, and roi is the binary64 result of
  \<^verbatim>\<open>47552 / 600239 * 100\<close>, which lies between 7.92 and 7.93. The other fields of the
  position do not matter.
\<close>

theorem example_calculation:
  "calculateStockPerformance (ls(FEE_DISCOUNT := d))
       (stock\<lparr>shares := Some (Fin 1000), avgCost := Some (Fin 600),
          currentPrice := Some (Fin 650), isEtf := Some False\<rparr>) [] =
     \<lparr>totalCost = Fin 600239, marketValue = Fin 650000, estimatedReturn = Fin 647791,
      netProfit = Fin 47552, roi = js_mul (js_div (Fin 47552) (Fin 600239)) (Fin 100),
      buyFee = Fin 239, sellFee = Fin 259, tax = Fin 1950, totalDividends = Fin 0\<rparr>
   \<and> js_lt (Fin (792 / 100)) (js_mul (js_div (Fin 47552) (Fin 600239)) (Fin 100))
   \<and> js_lt (js_mul (js_div (Fin 47552) (Fin 600239)) (Fin 100)) (Fin (793 / 100))"
  if "d = None \<or> d = Some (ascii ''0.28'')"
proof -
  have "getFeeDiscount (ls(FEE_DISCOUNT := d)) = Fin (1261007895663739 / 4503599627370496)"
    using that
  proof
    assume "d = None"
    then show ?thesis
      unfolding getFeeDiscount_def by (simp add: rd_eval)
  next
    assume "d = Some (ascii ''0.28'')"
    moreover have "ascii ''0.28'' \<noteq> []"
      by (simp add: ascii_def)
    ultimately show ?thesis
      unfolding getFeeDiscount_def by (simp add: parse_028)
  qed
  then show ?thesis
    by (simp add: example_with_discount rd_eval)
qed

theorem example_calculation_witness:
  "(None = None \<or> None = Some (ascii ''0.28''))
   \<and> calculateStockPerformance (Map.empty(FEE_DISCOUNT := None)) sample_stock [] =
     \<lparr>totalCost = Fin 600239, marketValue = Fin 650000, estimatedReturn = Fin 647791,
      netProfit = Fin 47552, roi = js_mul (js_div (Fin 47552) (Fin 600239)) (Fin 100),
      buyFee = Fin 239, sellFee = Fin 259, tax = Fin 1950, totalDividends = Fin 0\<rparr>"
  using example_calculation [where d = None and ls = Map.empty and stock = sample_stock]
  by (simp add: sample_stock_def)

section \<open>Positions without shares or cost\<close>

text \<open>
  C2, as the code has it. When the coerced shares or the coerced average cost is zero,
  every field of the result but \<open>totalDividends\<close> is zero. \<open>totalDividends\<close> is the
  sum, from left to right, of the amounts of the transactions of type \<open>DIVIDEND\<close> whose
  item or note contains the symbol, provided the position has a symbol that is not the
  empty string; it is zero when the symbol is missing or empty.
\<close>

theorem zero_position_result:
  assumes "or_zero (Number (shares stock)) = Fin 0 \<or> or_zero (Number (avgCost stock)) = Fin 0"
  shows "calculateStockPerformance ls stock txs =
     \<lparr>totalCost = Fin 0, marketValue = Fin 0, estimatedReturn = Fin 0, netProfit = Fin 0,
      roi = Fin 0, buyFee = Fin 0, sellFee = Fin 0, tax = Fin 0,
      totalDividends =
        (case symbol stock of
           None \<Rightarrow> Fin 0
         | Some sy \<Rightarrow>
             if sy = [] then Fin 0
             else foldl js_add (Fin 0)
                    (map amount
                      (filter
                        (\<lambda>t. type' t = DIVIDEND
                           \<and> (js_includes (item t) sy
                              \<or> (\<exists>n. note' t = Some n \<and> js_includes n sy)))
                        txs)))\<rparr>"
proof -
  have "dividendsOf stock txs =
      (case symbol stock of
         None \<Rightarrow> Fin 0
       | Some sy \<Rightarrow> if sy = [] then Fin 0 else sumAmounts (filter (isDividendOf sy) txs))"
    by (cases txs) (simp_all add: dividendsOf_def sumAmounts_def split: option.splits)
  moreover have "isDividendOf sy = (\<lambda>t. type' t = DIVIDEND
      \<and> (js_includes (item t) sy \<or> (\<exists>n. note' t = Some n \<and> js_includes n sy)))" for sy
    by (rule ext) (rule isDividendOf_iff)
  ultimately show ?thesis
    using assms
    by (simp add: calculateStockPerformance_def Let_def sumAmounts_foldl split: option.splits)
qed

theorem zero_position_result_witness:
  "(or_zero (Number (shares unheld_stock)) = Fin 0
      \<or> or_zero (Number (avgCost unheld_stock)) = Fin 0)
   \<and> calculateStockPerformance Map.empty unheld_stock [dividend_tx] =
     \<lparr>totalCost = Fin 0, marketValue = Fin 0, estimatedReturn = Fin 0, netProfit = Fin 0,
      roi = Fin 0, buyFee = Fin 0, sellFee = Fin 0, tax = Fin 0, totalDividends = Fin 500\<rparr>"
proof -
  have h: "or_zero (Number (shares unheld_stock)) = Fin 0
      \<or> or_zero (Number (avgCost unheld_stock)) = Fin 0"
    by (simp add: unheld_stock_def Number_def or_zero_def)
  have "js_includes (ascii ''2330 dividend'') (ascii ''2330'')"
    by (simp add: ascii_def startsWith_def)
  then show ?thesis
    using h zero_position_result [OF h, of Map.empty "[dividend_tx]"]
    by (simp add: unheld_stock_def dividend_tx_def ascii_def rd_eval)
qed

text \<open>
  As stated, C2 fails for a position whose symbol is the empty string: every item
  contains the empty string, so the claimed sum over the matching dividend transactions
  is 500 here, while the guard \<^verbatim>\<open>stock.symbol && transactions.length > 0\<close> makes the
  code return zero dividends.
\<close>

theorem empty_symbol_counterexample:
  "or_zero (Number (shares empty_symbol_stock)) = Fin 0
   \<and> symbol empty_symbol_stock = Some []
   \<and> type' dividend_tx = DIVIDEND
   \<and> js_includes (item dividend_tx) []
   \<and> sumAmounts (filter (isDividendOf []) [dividend_tx]) = Fin 500
   \<and> totalDividends (calculateStockPerformance Map.empty empty_symbol_stock [dividend_tx]) = Fin 0"
  by (simp add: empty_symbol_stock_def dividend_tx_def Number_def or_zero_def
      calculateStockPerformance_def Let_def dividendsOf_def sumAmounts_def isDividendOf_def
      ascii_def startsWith_def rd_eval)


section \<open>The tax rate\<close>

text \<open>
  C4. For a position with coerced shares and coerced average cost above zero, the tax is
  the floor of the market value times a rate; the rate is the number 0.001 when the
  position counts as an ETF and the number 0.003 otherwise, and no other rate occurs. The
  position counts as an ETF when \<open>isEtf\<close> is the boolean true, or when \<open>isEtf\<close> is
  not a boolean and the symbol starts with 00.
\<close>

theorem tax_rate_binary:
  assumes "js_gt (or_zero (Number (shares stock))) (Fin 0)"
    and "js_gt (or_zero (Number (avgCost stock))) (Fin 0)"
  shows "tax (calculateStockPerformance ls stock txs) =
      js_floor (js_mul (marketValue (calculateStockPerformance ls stock txs))
        (if isEtf stock = Some True
            \<or> (isEtf stock = None \<and> (\<exists>sy. symbol stock = Some sy \<and> startsWith sy (ascii ''00'')))
         then rd (1 / 1000) else rd (3 / 1000)))"
proof -
  have "isActuallyEtf stock \<longleftrightarrow>
      isEtf stock = Some True
      \<or> (isEtf stock = None \<and> (\<exists>sy. symbol stock = Some sy \<and> startsWith sy (ascii ''00'')))"
    by (auto simp: isActuallyEtf_def split: option.splits)
  then show ?thesis
    using assms by (simp add: performance_nonzero js_gt_zero_nonzero taxRateOf_def)
qed

theorem tax_rate_binary_witness:
  "js_gt (or_zero (Number (shares etf_stock))) (Fin 0)
   \<and> js_gt (or_zero (Number (avgCost etf_stock))) (Fin 0)
   \<and> tax (calculateStockPerformance Map.empty etf_stock []) = Fin 150
   \<and> marketValue (calculateStockPerformance Map.empty etf_stock []) = Fin 150000"
proof -
  have h1: "js_gt (or_zero (Number (shares etf_stock))) (Fin 0)"
    and h2: "js_gt (or_zero (Number (avgCost etf_stock))) (Fin 0)"
    by (simp_all add: etf_stock_def Number_def or_zero_def js_gt_def)
  have mv: "marketValue (calculateStockPerformance Map.empty etf_stock []) = Fin 150000"
    by (simp add: performance_nonzero js_gt_zero_nonzero h1 h2)
      (simp add: etf_stock_def Number_def or_zero_def rd_eval)
  have "startsWith (ascii ''0050'') (ascii ''00'')"
    by (simp add: startsWith_def ascii_def)
  moreover have "symbol etf_stock = Some (ascii ''0050'')" and "isEtf etf_stock = None"
    by (simp_all add: etf_stock_def)
  ultimately have "tax (calculateStockPerformance Map.empty etf_stock []) =
      js_floor (js_mul (Fin 150000) (rd (1 / 1000)))"
    using tax_rate_binary [OF h1 h2, of Map.empty "[]"] by (simp add: mv)
  also have "\<dots> = Fin 150"
    by (simp add: rd_eval)
  finally show ?thesis
    using h1 h2 mv by simp
qed


section \<open>The fees\<close>

text \<open>
  C1 at a failing input. The storage holds the string \<^verbatim>\<open>abc\<close> as fee discount, so
  \<^verbatim>\<open>getFeeDiscount\<close> returns \<open>NaN\<close>; for the position of 1000 shares bought at 600,
  whose coerced shares and average cost are above zero, the floored product is \<open>NaN\<close>,
  the test \<^verbatim>\<open>fee < minFee\<close> is false, and both fees are \<open>NaN\<close>, which is not at
  least 20. Whenever the fee is a number it is at least 20 (\<open>calculateFee_ge_min\<close>), and
  it is always \<^verbatim>\<open>Math.max\<close> of the floored product and 20 (\<open>calculateFee_max\<close>).
\<close>

theorem fee_not_a_number:
  "getFeeDiscount unparsable_storage = NaN
   \<and> js_gt (or_zero (Number (shares sample_stock))) (Fin 0)
   \<and> js_gt (or_zero (Number (avgCost sample_stock))) (Fin 0)
   \<and> buyFee (calculateStockPerformance unparsable_storage sample_stock []) = NaN
   \<and> sellFee (calculateStockPerformance unparsable_storage sample_stock []) = NaN
   \<and> \<not> js_ge (buyFee (calculateStockPerformance unparsable_storage sample_stock [])) minFee
   \<and> \<not> js_ge (sellFee (calculateStockPerformance unparsable_storage sample_stock [])) minFee"
  by (simp add: performance_nonzero sample_stock_coerced unparsable_discount calculateFee_NaN
      js_ge_def js_gt_def)

text \<open>
  C5, as the code has it. The function has no parameter for the fee discount: the
  discount is what \<^verbatim>\<open>getFeeDiscount\<close> reads from the storage, the stored string
  parsed by \<^verbatim>\<open>parseFloat\<close>, or the number 0.28 when nothing or the empty string is
  stored, and the result depends on the storage through this number only. For a
  position with non-zero coerced shares and average cost, both fees are the maximum of
  20 and the floor of price times shares times 0.001425 times this discount.
\<close>

theorem fee_discount_from_storage:
  assumes "or_zero (Number (shares stock)) \<noteq> Fin 0"
    and "or_zero (Number (avgCost stock)) \<noteq> Fin 0"
  shows "buyFee (calculateStockPerformance ls stock txs) =
       js_max (js_floor (js_mul (js_mul
           (js_mul (or_zero (Number (avgCost stock))) (or_zero (Number (shares stock))))
           (rd (1425 / 1000000))) (getFeeDiscount ls))) (Fin 20)
   \<and> sellFee (calculateStockPerformance ls stock txs) =
       js_max (js_floor (js_mul (js_mul
           (js_mul (or_zero (Number (currentPrice stock))) (or_zero (Number (shares stock))))
           (rd (1425 / 1000000))) (getFeeDiscount ls))) (Fin 20)
   \<and> (ls FEE_DISCOUNT = None \<or> ls FEE_DISCOUNT = Some [] \<longrightarrow> getFeeDiscount ls = rd (28 / 100))
   \<and> (\<forall>d. ls FEE_DISCOUNT = Some d \<and> d \<noteq> [] \<longrightarrow> getFeeDiscount ls = parseFloat d)
   \<and> (\<forall>ls'. getFeeDiscount ls' = getFeeDiscount ls \<longrightarrow>
         calculateStockPerformance ls' stock txs = calculateStockPerformance ls stock txs)"
proof (intro conjI allI impI)
  show "buyFee (calculateStockPerformance ls stock txs) =
       js_max (js_floor (js_mul (js_mul
           (js_mul (or_zero (Number (avgCost stock))) (or_zero (Number (shares stock))))
           (rd (1425 / 1000000))) (getFeeDiscount ls))) (Fin 20)"
    unfolding performance_nonzero(1) [OF assms] calculateFee_max feeRate_def minFee_def ..
  show "sellFee (calculateStockPerformance ls stock txs) =
       js_max (js_floor (js_mul (js_mul
           (js_mul (or_zero (Number (currentPrice stock))) (or_zero (Number (shares stock))))
           (rd (1425 / 1000000))) (getFeeDiscount ls))) (Fin 20)"
    unfolding performance_nonzero(2) [OF assms] calculateFee_max feeRate_def minFee_def ..
  show "getFeeDiscount ls = rd (28 / 100)"
    if "ls FEE_DISCOUNT = None \<or> ls FEE_DISCOUNT = Some []"
    using that unfolding getFeeDiscount_def by (auto simp del: divide_numeral_1)
  show "getFeeDiscount ls = parseFloat d" if "ls FEE_DISCOUNT = Some d \<and> d \<noteq> []" for d
    using that unfolding getFeeDiscount_def by auto
  show "calculateStockPerformance ls' stock txs = calculateStockPerformance ls stock txs"
    if "getFeeDiscount ls' = getFeeDiscount ls" for ls'
    unfolding calculateStockPerformance_def that ..
qed

theorem fee_discount_from_storage_witness:
  "or_zero (Number (shares sample_stock)) \<noteq> Fin 0
   \<and> or_zero (Number (avgCost sample_stock)) \<noteq> Fin 0
   \<and> half_discount_storage FEE_DISCOUNT = Some (ascii ''0.5'')
   \<and> buyFee (calculateStockPerformance half_discount_storage sample_stock []) = Fin 427
   \<and> sellFee (calculateStockPerformance half_discount_storage sample_stock []) = Fin 463"
proof -
  have h1: "or_zero (Number (shares sample_stock)) \<noteq> Fin 0"
    and h2: "or_zero (Number (avgCost sample_stock)) \<noteq> Fin 0"
    by (simp_all add: sample_stock_coerced)
  note fees = fee_discount_from_storage [OF h1 h2, of half_discount_storage "[]"]
  have eq: "js_max (js_floor (js_mul (js_mul (js_mul (Fin p) (Fin 1000)) (rd (1425 / 1000000)))
      (Fin (1 / 2)))) (Fin 20) = calculateFee (Fin 1000) (Fin (1 / 2)) (Fin p)" for p
    unfolding calculateFee_max feeRate_def minFee_def ..
  have "buyFee (calculateStockPerformance half_discount_storage sample_stock []) = Fin 427"
    unfolding fees [THEN conjunct1] sample_stock_coerced half_discount eq by (rule fee_600_half)
  moreover
  have "sellFee (calculateStockPerformance half_discount_storage sample_stock []) = Fin 463"
    unfolding fees [THEN conjunct2, THEN conjunct1] sample_stock_coerced half_discount eq
    by (rule fee_650_half)
  moreover have "half_discount_storage FEE_DISCOUNT = Some (ascii ''0.5'')"
    by (simp add: half_discount_storage_def)
  ultimately show ?thesis
    using h1 h2 by blast
qed

text \<open>
  As stated, C5 fails: a call passes the position and the transactions only, and with
  the string \<^verbatim>\<open>0.5\<close> in the storage the buy fee of the sample position is 427, not
  the 239 that the default discount 0.28 gives.
\<close>

theorem stored_discount_counterexample:
  "buyFee (calculateStockPerformance half_discount_storage sample_stock []) = Fin 427
   \<and> calculateFee (Fin 1000) (rd (28 / 100)) (Fin 600) = Fin 239"
proof -
  have "calculateFee (Fin 1000) (rd (28 / 100)) (Fin 600) = Fin 239"
    unfolding default_discount_val by (rule fee_600)
  then show ?thesis
    by (simp add: performance_nonzero sample_stock_coerced half_discount fee_600_half)
qed

section \<open>Missing columns\<close>

text \<open>
  C6, as the code has it. When the text has at least two non-empty lines and its header
  line lacks a column for one of the six required fields, that is, no header cell
  contains any keyword variant of the field, the parser returns no transactions and an
  error string: the fixed prefix followed by the names of all the missing fields,
  separated by U+3001. So the error names every missing field, and without any column
  for the amount it names U+61C9 U+6536 U+4ED8 U+5E33 U+6B3E.
\<close>

theorem missing_required_column:
  assumes "2 \<le> length (csvLines text)"
    and "\<exists>field\<in>set required_keywords. lacks_column (headersOf (hd (csvLines text))) (snd field)"
  shows "transactions (parseStockTransactionCSV uuid text) = []
   \<and> error (parseStockTransactionCSV uuid text) =
       Some (err_missing @ join name_sep
         (map fst (filter (\<lambda>field. lacks_column (headersOf (hd (csvLines text))) (snd field))
            required_keywords)))
   \<and> (\<forall>field\<in>set required_keywords.
         lacks_column (headersOf (hd (csvLines text))) (snd field) \<longrightarrow>
         (\<exists>e. error (parseStockTransactionCSV uuid text) = Some e \<and> js_includes e (fst field)))
   \<and> (lacks_column (headersOf (hd (csvLines text))) [kw_amount, kw_amount2, kw_amount3] \<longrightarrow>
         (\<exists>e. error (parseStockTransactionCSV uuid text) = Some e \<and> js_includes e kw_amount))"
proof -
  let ?hs = "headersOf (hd (csvLines text))"
  let ?lacking = "filter (\<lambda>field. lacks_column ?hs (snd field)) required_keywords"
  let ?e = "err_missing @ join name_sep (map fst ?lacking)"
  have names: "map snd (missingColumns (columnsOf text)) = map fst ?lacking"
    unfolding columnsOf_def by (rule missing_names)
  from assms(2) have "?lacking \<noteq> []"
    by (auto simp: filter_empty_conv)
  with names have "missingColumns (columnsOf text) \<noteq> []"
    by auto
  with assms(1) have result: "parseStockTransactionCSV uuid text = \<lparr>transactions = [], error = Some ?e\<rparr>"
    by (simp add: parse_cases names)
  have named: "js_includes ?e (fst field)"
    if "field \<in> set required_keywords" and "lacks_column ?hs (snd field)" for field
  proof -
    from that have "fst field \<in> set (map fst ?lacking)"
      by auto
    then show ?thesis
      by (intro js_includes_append_right js_includes_join)
  qed
  have "(kw_amount, [kw_amount, kw_amount2, kw_amount3]) \<in> set required_keywords"
    by (simp add: required_keywords_def)
  with named have "lacks_column ?hs [kw_amount, kw_amount2, kw_amount3] \<Longrightarrow> js_includes ?e kw_amount"
    by fastforce
  with named show ?thesis
    unfolding result by simp
qed

theorem missing_required_column_witness:
  "2 \<le> length (csvLines csv_without_amount)
   \<and> lacks_column (headersOf (hd (csvLines csv_without_amount))) [kw_amount, kw_amount2, kw_amount3]
   \<and> transactions (parseStockTransactionCSV sample_uuid csv_without_amount) = []
   \<and> error (parseStockTransactionCSV sample_uuid csv_without_amount) = Some (err_missing @ kw_amount)"
proof -
  have h1: "2 \<le> length (csvLines csv_without_amount)"
    by (simp add: without_amount_lines)
  have lacks: "lacks_column (headersOf (hd (csvLines csv_without_amount)))
      [kw_amount, kw_amount2, kw_amount3]"
    by (simp add: without_amount_lines without_amount_headers lacks_column_def kw_defs startsWith_def)
  moreover have "(kw_amount, [kw_amount, kw_amount2, kw_amount3]) \<in> set required_keywords"
    by (simp add: required_keywords_def)
  ultimately have h2: "\<exists>field\<in>set required_keywords.
      lacks_column (headersOf (hd (csvLines csv_without_amount))) (snd field)"
    by force
  from missing_required_column [OF h1 h2, of sample_uuid] h1 lacks show ?thesis
    by (simp add: without_amount_lines without_amount_headers without_amount_lacks)
qed

text \<open>
  As stated, C6 fails for a text that has a header line only: the parser first checks
  the number of lines and returns the error for an empty file, which names no field.
\<close>

theorem header_only_counterexample:
  "lacks_column (headersOf (hd (csvLines header_without_amount))) [kw_amount, kw_amount2, kw_amount3]
   \<and> transactions (parseStockTransactionCSV sample_uuid header_without_amount) = []
   \<and> error (parseStockTransactionCSV sample_uuid header_without_amount) = Some err_empty
   \<and> \<not> js_includes err_empty kw_amount"
proof -
  have "lacks_column (headersOf (hd (csvLines header_without_amount)))
      [kw_amount, kw_amount2, kw_amount3]"
    by (simp add: header_only_lines without_amount_headers lacks_column_def kw_defs startsWith_def)
  moreover have "\<not> js_includes err_empty kw_amount"
    by (simp add: err_empty_def kw_amount_def startsWith_def)
  ultimately show ?thesis
    by (simp add: parse_cases header_only_lines)
qed

section \<open>The round trip\<close>

text \<open>
  C7. The text made of the sample header and the sample row parses without error to
  exactly one record, with side \<open>BUY\<close>, symbol 2330, 1000 shares, price 600 and amount
  \<open>- 600020\<close>; its date is 2024-01-15, its fees and its realized profit are zero.
\<close>

theorem sample_roundtrip:
  "parseStockTransactionCSV uuid (sample_header @ [10] @ sample_row) =
     \<lparr>transactions =
        [\<lparr>tx_id = uuid 1, tx_date = ascii ''2024-01-15'', tx_symbol = ascii ''2330'',
          tx_side = BUY, tradeType = [], tx_shares = Fin 1000, tx_price = Fin 600,
          fees = Fin 0, realizedProfit = Some (Fin 0), tx_amount = Fin (- 600020)\<rparr>],
      error = None\<rparr>"
  unfolding sample_csv_def [symmetric] sample_parse sample_record_def ..

section \<open>Rows\<close>

text \<open>
  C8. When the header is valid, the records returned are, in the order of the data
  lines, the records that the single lines push: each line contributes its own record or
  nothing, whatever the other lines do, also when the loop body throws on a line, and the
  parser returns a value. A line that contains the subtotal or the total mark pushes
  nothing, and neither does a line whose symbol cell or date cell is empty (or absent)
  or whose date cell does not start with four digits, two digits and two digits,
  optionally separated by slashes.
\<close>

theorem rows_parsed_independently:
  assumes "error (parseStockTransactionCSV uuid text) = None"
  shows "transactions (parseStockTransactionCSV uuid text) =
       List.map_filter (\<lambda>(i, line). pushed (parseRow (columnsOf text) (uuid i) line))
         (List.enumerate 1 (tl (csvLines text)))
   \<and> (\<forall>line uid. js_includes line subtotal_mark \<or> js_includes line total_mark \<longrightarrow>
         pushed (parseRow (columnsOf text) uid line) = None)
   \<and> (\<forall>line uid.
         cell_text (split_csv line) (col_symbol (columnsOf text)) = []
         \<or> cell_text (split_csv line) (col_date (columnsOf text)) = []
         \<or> \<not> date_match (cell_text (split_csv line) (col_date (columnsOf text))) \<longrightarrow>
         pushed (parseRow (columnsOf text) uid line) = None)"
proof (intro conjI allI impI)
  show "transactions (parseStockTransactionCSV uuid text) =
       List.map_filter (\<lambda>(i, line). pushed (parseRow (columnsOf text) (uuid i) line))
         (List.enumerate 1 (tl (csvLines text)))"
    using assms by (simp add: parse_transactions parseRows_append)
next
  fix line uid
  assume "js_includes line subtotal_mark \<or> js_includes line total_mark"
  then show "pushed (parseRow (columnsOf text) uid line) = None"
    by (simp add: parseRow_marked pushed_def)
next
  fix line uid
  assume "cell_text (split_csv line) (col_symbol (columnsOf text)) = []
      \<or> cell_text (split_csv line) (col_date (columnsOf text)) = []
      \<or> \<not> date_match (cell_text (split_csv line) (col_date (columnsOf text)))"
  then show "pushed (parseRow (columnsOf text) uid line) = None"
    by (simp add: parseRow_unreadable pushed_def)
qed

theorem rows_parsed_independently_witness:
  "error (parseStockTransactionCSV sample_uuid mixed_csv) = None
   \<and> tl (csvLines mixed_csv) = [subtotal_line, short_line, undated_line, sample_row]
   \<and> transactions (parseStockTransactionCSV sample_uuid mixed_csv) =
       List.map_filter (\<lambda>(i, line). pushed (parseRow (columnsOf mixed_csv) (sample_uuid i) line))
         (List.enumerate 1 (tl (csvLines mixed_csv)))
   \<and> transactions (parseStockTransactionCSV sample_uuid mixed_csv) = [sample_record (sample_uuid 4)]"
proof -
  have h: "error (parseStockTransactionCSV sample_uuid mixed_csv) = None"
    by (simp add: mixed_parse)
  from rows_parsed_independently [OF h, THEN conjunct1] h show ?thesis
    by (simp add: mixed_parse mixed_lines)
qed

section \<open>The realized profit\<close>

text \<open>
  C9, as the code has it. Every returned record carries a number as realized profit:
  on a \<open>SELL\<close> record the cleaned value of the realized profit cell of the line
  that pushed it when the header has such a column, zero when it has none; on a \<open>BUY\<close>
  record zero.
\<close>

theorem realizedProfit_always_set:
  assumes "t \<in> set (transactions (parseStockTransactionCSV uuid text))"
  shows "(\<exists>(i, line)\<in>set (List.enumerate 1 (tl (csvLines text))).
        parseRow (columnsOf text) (uuid i) line = Pushed t
        \<and> realizedProfit t =
          Some (if tx_side t = SELL \<and> col_realizedProfit (columnsOf text) \<noteq> - 1
                then cleanNumber (cell (split_csv line) (col_realizedProfit (columnsOf text)))
                else Fin 0))
   \<and> realizedProfit t \<noteq> None
   \<and> (tx_side t = BUY \<longrightarrow> realizedProfit t = Some (Fin 0))"
proof -
  from transactions_rows [OF assms] obtain i line
    where row: "(i, line) \<in> set (List.enumerate 1 (tl (csvLines text)))"
      and pushed: "parseRow (columnsOf text) (uuid i) line = Pushed t"
    by blast
  note profit = parseRow_Pushed(4) [OF pushed]
  from row pushed profit have "\<exists>(i, line)\<in>set (List.enumerate 1 (tl (csvLines text))).
        parseRow (columnsOf text) (uuid i) line = Pushed t
        \<and> realizedProfit t =
          Some (if tx_side t = SELL \<and> col_realizedProfit (columnsOf text) \<noteq> - 1
                then cleanNumber (cell (split_csv line) (col_realizedProfit (columnsOf text)))
                else Fin 0)"
    by blast
  moreover from profit have "realizedProfit t \<noteq> None"
    and "tx_side t = BUY \<longrightarrow> realizedProfit t = Some (Fin 0)"
    by simp_all
  ultimately show ?thesis
    by blast
qed

theorem realizedProfit_always_set_witness:
  "sell_record (sample_uuid 1) \<in> set (transactions (parseStockTransactionCSV sample_uuid sell_csv))
   \<and> tx_side (sell_record (sample_uuid 1)) = SELL
   \<and> realizedProfit (sell_record (sample_uuid 1)) = Some (Fin 47552)"
proof -
  have h: "sell_record (sample_uuid 1)
      \<in> set (transactions (parseStockTransactionCSV sample_uuid sell_csv))"
    by (simp add: sell_parse)
  from realizedProfit_always_set [OF h] h show ?thesis
    by (simp add: sell_record_def)
qed

text \<open>
  As stated, C9 fails on the sample text: its record has side \<open>BUY\<close> and carries the
  realized profit zero, not an absent value.
\<close>

theorem buy_realizedProfit_counterexample:
  "transactions (parseStockTransactionCSV sample_uuid sample_csv) = [sample_record (sample_uuid 1)]
   \<and> tx_side (sample_record (sample_uuid 1)) = BUY
   \<and> realizedProfit (sample_record (sample_uuid 1)) = Some (Fin 0)
   \<and> realizedProfit (sample_record (sample_uuid 1)) \<noteq> None"
  by (simp add: sample_parse sample_record_def)

section \<open>The date\<close>

text \<open>
  C10. The date of every returned record is the date cell of the data line that pushed
  it, as the parser reads it, with every slash replaced by a hyphen; no returned date
  contains a slash.
\<close>

theorem date_slashes_replaced:
  assumes "t \<in> set (transactions (parseStockTransactionCSV uuid text))"
  shows "(\<exists>(i, line)\<in>set (List.enumerate 1 (tl (csvLines text))).
        parseRow (columnsOf text) (uuid i) line = Pushed t
        \<and> tx_date t = map (\<lambda>c. if c = 47 then 45 else c)
            (cell_text (split_csv line) (col_date (columnsOf text))))
   \<and> 47 \<notin> set (tx_date t)"
proof -
  from transactions_rows [OF assms] obtain i line
    where row: "(i, line) \<in> set (List.enumerate 1 (tl (csvLines text)))"
      and pushed: "parseRow (columnsOf text) (uuid i) line = Pushed t"
    by blast
  note date = parseRow_Pushed(1) [OF pushed]
  from date have "47 \<notin> set (tx_date t)"
    by auto
  with row pushed date show ?thesis
    by blast
qed

theorem date_slashes_replaced_witness:
  "sample_record (sample_uuid 1) \<in> set (transactions (parseStockTransactionCSV sample_uuid sample_csv))
   \<and> cell_text (split_csv sample_row) (col_date (columnsOf sample_csv)) = ascii ''2024/01/15''
   \<and> tx_date (sample_record (sample_uuid 1)) = ascii ''2024-01-15''
   \<and> 47 \<notin> set (tx_date (sample_record (sample_uuid 1)))"
proof -
  have h: "sample_record (sample_uuid 1)
      \<in> set (transactions (parseStockTransactionCSV sample_uuid sample_csv))"
    by (simp add: sample_parse)
  have "cell_text (split_csv sample_row) (col_date (columnsOf sample_csv)) = ascii ''2024/01/15''"
    by (simp add: sample_columns sample_cm_def sample_row_def cell_text_def cell_def clean_cell_def
        trim_def is_ws_def ascii_def)
  with date_slashes_replaced [OF h] h show ?thesis
    by (simp add: sample_record_def)
qed

end
